theory Spec2Isabelle
  imports Main
begin

section \<open>Python values, errors and list indexing\<close>

text \<open>
  The exceptions that the modelled code of \<^verbatim>\<open>prompts/fuzzy/fuzzy.py\<close> can raise.
  \<^verbatim>\<open>ValidationError\<close> is always caught inside \<^verbatim>\<open>_handle_enter\<close>, so it never
  leaves a function and is not an error value here.
\<close>

datatype error = InvalidArgument | IndexError | ZeroDivisionError

text \<open>
  The value of a choice is an opaque payload, or an instance of \<^verbatim>\<open>Separator\<close>
  (the test \<^verbatim>\<open>isinstance(choice["value"], Separator)\<close>).
\<close>

datatype 'v item = Separator | Plain 'v

text \<open>
  What a prompt hands back: \<^verbatim>\<open>None\<close>, one value, or a list of values.
\<close>

datatype 'a answer = NoneAnswer | Single 'a | Multi "'a list"

text \<open>
  Python's \<^verbatim>\<open>xs[i]\<close>: an index from \<open>-len\<close> up to \<open>-1\<close> counts from the end, and an
  index outside \<open>-len .. len - 1\<close> raises \<^verbatim>\<open>IndexError\<close>.
\<close>

definition py_pos :: "nat \<Rightarrow> int \<Rightarrow> error + nat" where
  "py_pos n i =
     (if 0 \<le> i \<and> i < int n then Inr (nat i)
      else if i < 0 \<and> - int n \<le> i then Inr (nat (int n + i))
      else Inl IndexError)"

definition getitem :: "'a list \<Rightarrow> int \<Rightarrow> error + 'a" where
  "getitem xs i = (case py_pos (length xs) i of Inl e \<Rightarrow> Inl e | Inr k \<Rightarrow> Inr (xs ! k))"

section \<open>The data of the fuzzy prompt\<close>

text \<open>
  A choice is the dict \<^verbatim>\<open>{"name", "value", "enabled", "index"}\<close>.
\<close>

record 'v choice =
  choice_name :: string
  choice_value :: "'v item"
  choice_enabled :: bool
  choice_index :: int

text \<open>
  The state of \<^verbatim>\<open>FuzzyPrompt\<close> together with its \<^verbatim>\<open>InquirerPyFuzzyControl\<close>.

  \<^item> \<open>choices\<close> is \<^verbatim>\<open>content_control.choices\<close>. The list is built once and never
    resized or reordered; only the \<^verbatim>\<open>enabled\<close> entry of its dicts is written later.
  \<^item> \<open>filtered_choices\<close> is \<^verbatim>\<open>content_control._filtered_choices\<close>. In Python it
    holds references to the very dicts of \<open>choices\<close>; a reference is modelled by the
    position of the dict in \<open>choices\<close>, so that a write to a dict is seen through both
    lists.
  \<^item> \<open>filtered_indices\<close> is \<^verbatim>\<open>content_control._filtered_indices\<close>, the matched
    character positions, one list per filtered entry.
  \<^item> \<open>buffer_text\<close> is \<^verbatim>\<open>self._buffer.text\<close>, read through \<^verbatim>\<open>_current_text\<close>.
  \<^item> \<open>validator\<close> is \<^verbatim>\<open>self.validator\<close>: \<open>True\<close> when \<^verbatim>\<open>validate\<close> returns,
    \<open>False\<close> when it raises \<^verbatim>\<open>ValidationError\<close>.
  \<^item> \<open>status_answered\<close>, \<open>status_result\<close> are the two entries of \<^verbatim>\<open>self.status\<close>.
  \<^item> \<open>exit_result\<close> is the argument of \<^verbatim>\<open>event.app.exit(result=...)\<close>, \<open>None\<close>
    as long as the application has not been left.
\<close>

record 'v fuzzy_prompt =
  choices :: "'v choice list"
  selected_choice_index :: int
  filtered_choices :: "nat list"
  filtered_indices :: "int list list"
  buffer_text :: string
  multiselect :: bool
  invalid :: bool
  validator :: "'v item answer \<Rightarrow> bool"
  status_answered :: bool
  status_result :: "string answer"
  exit_result :: "'v item answer option"

text \<open>
  \<^verbatim>\<open>fuzzy_match_py\<close> lives in \<^verbatim>\<open>fzy.py\<close>, which is not part of the sources at hand;
  it is a parameter of the model. It takes the text and the choices and returns the
  matched positions and the matching choices (as references).
\<close>

type_synonym 'v matcher = "string \<Rightarrow> 'v choice list \<Rightarrow> int list list \<times> nat list"

section \<open>Construction\<close>

text \<open>
  The loop of \<^verbatim>\<open>InquirerPyFuzzyControl.__init__\<close> over \<^verbatim>\<open>enumerate(self.choices)\<close>:
  a separator raises \<^verbatim>\<open>InvalidArgument\<close>, every other choice gets
  \<^verbatim>\<open>enabled = False\<close> and its position as \<^verbatim>\<open>index\<close>.
\<close>

primrec init_choices :: "int \<Rightarrow> 'v choice list \<Rightarrow> error + 'v choice list" where
  "init_choices i [] = Inr []"
| "init_choices i (c # cs) =
     (if choice_value c = Separator then Inl InvalidArgument
      else case init_choices (i + 1) cs of
             Inl e \<Rightarrow> Inl e
           | Inr cs' \<Rightarrow> Inr (c\<lparr>choice_enabled := False, choice_index := i\<rparr> # cs'))"

text \<open>
  \<^verbatim>\<open>FuzzyPrompt.__init__\<close>. The base classes (\<^verbatim>\<open>InquirerPy/base.py\<close>) are not
  among the sources: \<open>base\<close> is the state that their constructors leave (the
  normalised choices, the cursor preselected from \<^verbatim>\<open>default\<close>, the validator, the
  status). The fuzzy classes then set their own attributes.
\<close>

definition fuzzy_init :: "'v fuzzy_prompt \<Rightarrow> bool \<Rightarrow> error + 'v fuzzy_prompt" where
  "fuzzy_init base multi =
     (case init_choices 0 (choices base) of
        Inl e \<Rightarrow> Inl e
      | Inr cs \<Rightarrow>
          Inr (base\<lparr>multiselect := multi, choices := cs,
                    filtered_choices := [0..<length cs], filtered_indices := [],
                    buffer_text := []\<rparr>))"

section \<open>The control: filtering and the current selection\<close>

definition choice_count :: "'v fuzzy_prompt \<Rightarrow> int" where
  "choice_count s = int (length (filtered_choices s))"

text \<open>
  \<^verbatim>\<open>filter_choices\<close>. With an empty text, \<^verbatim>\<open>self._filtered_choices = self.choices\<close>:
  every dict of \<open>choices\<close>, in order. \<^verbatim>\<open>_filtered_indices\<close> is assigned in the other
  branch only.
\<close>

definition filter_choices :: "'v matcher \<Rightarrow> 'v fuzzy_prompt \<Rightarrow> 'v fuzzy_prompt" where
  "filter_choices fuzzy_match_py s =
     (if buffer_text s = [] then s\<lparr>filtered_choices := [0..<length (choices s)]\<rparr>
      else case fuzzy_match_py (buffer_text s) (choices s) of
             (indices, chs) \<Rightarrow> s\<lparr>filtered_choices := chs, filtered_indices := indices\<rparr>)"

text \<open>
  The property \<^verbatim>\<open>selection\<close>: \<^verbatim>\<open>self._filtered_choices[self.selected_choice_index]\<close>.
\<close>

definition selection :: "'v fuzzy_prompt \<Rightarrow> error + 'v choice" where
  "selection s =
     (case getitem (filtered_choices s) (selected_choice_index s) of
        Inl e \<Rightarrow> Inl e
      | Inr r \<Rightarrow> Inr (choices s ! r))"

section \<open>The handlers of the prompt\<close>

text \<open>
  \<^verbatim>\<open>_toggle_all(value=None)\<close>. The new flag is
  \<^verbatim>\<open>value if value else not choice["enabled"]\<close>: only \<^verbatim>\<open>True\<close> is truthy.
\<close>

definition toggle_choice :: "bool option \<Rightarrow> 'v choice \<Rightarrow> 'v choice" where
  "toggle_choice v c =
     (if choice_value c = Separator then c
      else c\<lparr>choice_enabled := (if v = Some True then True else \<not> choice_enabled c)\<rparr>)"

definition toggle_all :: "bool option \<Rightarrow> 'v fuzzy_prompt \<Rightarrow> 'v fuzzy_prompt" where
  "toggle_all v s = s\<lparr>choices := map (toggle_choice v) (choices s)\<rparr>"

text \<open>
  \<^verbatim>\<open>_on_text_changed\<close>: clear the invalid flag, filter again, pull the cursor back to
  the last entry when it is beyond it, and turn a cursor of \<open>-1\<close> into \<open>0\<close>.
\<close>

definition on_text_changed :: "'v matcher \<Rightarrow> 'v fuzzy_prompt \<Rightarrow> 'v fuzzy_prompt" where
  "on_text_changed fuzzy_match_py s =
     (let s1 = (if invalid s then s\<lparr>invalid := False\<rparr> else s);
          s2 = filter_choices fuzzy_match_py s1;
          s3 = (if selected_choice_index s2 > choice_count s2 - 1
                then s2\<lparr>selected_choice_index := choice_count s2 - 1\<rparr> else s2)
      in if selected_choice_index s3 = - 1 then s3\<lparr>selected_choice_index := 0\<rparr> else s3)"

text \<open>
  \<^verbatim>\<open>_handle_down\<close> and \<^verbatim>\<open>_handle_up\<close>: the operator \<^verbatim>\<open>%\<close> raises
  \<^verbatim>\<open>ZeroDivisionError\<close> for a zero count; for a positive count its result is that of
  \<open>mod\<close> on \<open>int\<close>.
\<close>

definition handle_down :: "'v fuzzy_prompt \<Rightarrow> error + 'v fuzzy_prompt" where
  "handle_down s =
     (if choice_count s = 0 then Inl ZeroDivisionError
      else Inr (s\<lparr>selected_choice_index := (selected_choice_index s + 1) mod choice_count s\<rparr>))"

definition handle_up :: "'v fuzzy_prompt \<Rightarrow> error + 'v fuzzy_prompt" where
  "handle_up s =
     (if choice_count s = 0 then Inl ZeroDivisionError
      else Inr (s\<lparr>selected_choice_index := (selected_choice_index s - 1) mod choice_count s\<rparr>))"

text \<open>
  \<^verbatim>\<open>_handle_tab\<close>: read \<^verbatim>\<open>selection["index"]\<close>, then negate the flag of
  \<^verbatim>\<open>choices[index]\<close>.
\<close>

definition handle_tab :: "'v fuzzy_prompt \<Rightarrow> error + 'v fuzzy_prompt" where
  "handle_tab s =
     (case selection s of
        Inl e \<Rightarrow> Inl e
      | Inr sel \<Rightarrow>
          (case py_pos (length (choices s)) (choice_index sel) of
             Inl e \<Rightarrow> Inl e
           | Inr k \<Rightarrow>
               Inr (s\<lparr>choices := (choices s)
                      [k := (choices s ! k)\<lparr>choice_enabled := \<not> choice_enabled (choices s ! k)\<rparr>]\<rparr>)))"

text \<open>
  The properties \<^verbatim>\<open>selected_choices\<close>, \<^verbatim>\<open>result_name\<close> and \<^verbatim>\<open>result_value\<close>.
\<close>

definition selected_choices :: "'v fuzzy_prompt \<Rightarrow> 'v choice list" where
  "selected_choices s = filter choice_enabled (choices s)"

definition result_name :: "'v fuzzy_prompt \<Rightarrow> error + string answer" where
  "result_name s =
     (if multiselect s then Inr (Multi (map choice_name (selected_choices s)))
      else case selection s of Inl e \<Rightarrow> Inl e | Inr sel \<Rightarrow> Inr (Single (choice_name sel)))"

definition result_value :: "'v fuzzy_prompt \<Rightarrow> error + 'v item answer" where
  "result_value s =
     (if multiselect s then Inr (Multi (map choice_value (selected_choices s)))
      else case selection s of Inl e \<Rightarrow> Inl e | Inr sel \<Rightarrow> Inr (Single (choice_value sel)))"

text \<open>
  \<^verbatim>\<open>_handle_enter\<close>, in three parts.

  \<open>enter_answer\<close> is the body of the second \<^verbatim>\<open>try\<close>: it works on a state whose
  \<^verbatim>\<open>status["answered"]\<close> is already set, the one write that precedes every
  expression that can raise.
\<close>

definition enter_answer :: "'v fuzzy_prompt \<Rightarrow> error + 'v fuzzy_prompt" where
  "enter_answer s =
     (if multiselect s then
        (if selected_choices s = [] then
           (case selection s of
              Inl e \<Rightarrow> Inl e
            | Inr sel \<Rightarrow>
                Inr (s\<lparr>status_result := Multi [choice_name sel],
                       exit_result := Some (Multi [choice_value sel])\<rparr>))
         else
           (case result_name s of
              Inl e \<Rightarrow> Inl e
            | Inr names \<Rightarrow>
                (case result_value s of
                   Inl e \<Rightarrow> Inl e
                 | Inr vals \<Rightarrow> Inr (s\<lparr>status_result := names, exit_result := Some vals\<rparr>))))
      else
        (case selection s of
           Inl e \<Rightarrow> Inl e
         | Inr sel \<Rightarrow>
             Inr (s\<lparr>status_result := Single (choice_name sel),
                    exit_result := Some (Single (choice_value sel))\<rparr>)))"

text \<open>
  \<open>enter_except\<close> is the handler \<^verbatim>\<open>except IndexError\<close> of the second \<^verbatim>\<open>try\<close>.
\<close>

definition enter_except :: "'v fuzzy_prompt \<Rightarrow> 'v fuzzy_prompt" where
  "enter_except s =
     s\<lparr>status_answered := True,
       status_result := (if \<not> multiselect s then NoneAnswer else Multi []),
       exit_result := Some (if \<not> multiselect s then NoneAnswer else Multi [])\<rparr>"

text \<open>
  The first \<^verbatim>\<open>try\<close> evaluates \<^verbatim>\<open>self.result_value\<close> and validates it; its only
  handler is \<^verbatim>\<open>except ValidationError\<close>, so any other exception raised there leaves
  \<^verbatim>\<open>_handle_enter\<close>.
\<close>

definition handle_enter :: "'v fuzzy_prompt \<Rightarrow> error + 'v fuzzy_prompt" where
  "handle_enter s =
     (case result_value s of
        Inl e \<Rightarrow> Inl e
      | Inr rv \<Rightarrow>
          if \<not> validator s rv then Inr (s\<lparr>invalid := True\<rparr>)
          else
            (case enter_answer (s\<lparr>status_answered := True\<rparr>) of
               Inl e \<Rightarrow>
                 if e = IndexError then Inr (enter_except (s\<lparr>status_answered := True\<rparr>))
                 else Inl e
             | Inr s' \<Rightarrow> Inr s'))"

text \<open>
  The key bindings registered in \<^verbatim>\<open>FuzzyPrompt.__init__\<close>. A binding with
  \<^verbatim>\<open>filter=is_multiselect\<close> does not exist for the prompt while the filter is false:
  the result is then \<open>None\<close>.
\<close>

datatype key = Enter | Tab | BackTab | Down | Up | EscapeA | EscapeR

definition tab_then :: "('v fuzzy_prompt \<Rightarrow> error + 'v fuzzy_prompt) \<Rightarrow> 'v fuzzy_prompt
    \<Rightarrow> error + 'v fuzzy_prompt" where
  "tab_then move s = (case handle_tab s of Inl e \<Rightarrow> Inl e | Inr s' \<Rightarrow> move s')"

fun key_binding :: "key \<Rightarrow> 'v fuzzy_prompt \<Rightarrow> (error + 'v fuzzy_prompt) option" where
  "key_binding Enter s = Some (handle_enter s)"
| "key_binding Tab s = (if multiselect s then Some (tab_then handle_down s) else None)"
| "key_binding BackTab s = (if multiselect s then Some (tab_then handle_up s) else None)"
| "key_binding Down s = Some (handle_down s)"
| "key_binding Up s = Some (handle_up s)"
| "key_binding EscapeA s = (if multiselect s then Some (Inr (toggle_all (Some True) s)) else None)"
| "key_binding EscapeR s = (if multiselect s then Some (Inr (toggle_all None s)) else None)"

text \<open>
  A change of the buffer's text fires \<^verbatim>\<open>_on_text_changed\<close> with the new text in place.
\<close>

definition type_text :: "'v matcher \<Rightarrow> string \<Rightarrow> 'v fuzzy_prompt \<Rightarrow> 'v fuzzy_prompt" where
  "type_text fuzzy_match_py t s = on_text_changed fuzzy_match_py (s\<lparr>buffer_text := t\<rparr>)"

section \<open>Observations and invariants\<close>

text \<open>
  What the application hands back after a handler has run: the exception that left the
  handler, or the argument of \<^verbatim>\<open>app.exit\<close> (\<open>None\<close> when the prompt goes on).
\<close>

definition exit_of :: "error + 'v fuzzy_prompt \<Rightarrow> error + 'v item answer option" where
  "exit_of r = (case r of Inl e \<Rightarrow> Inl e | Inr s \<Rightarrow> Inr (exit_result s))"

text \<open>
  Three facts that hold of every state the prompt goes through; they are established
  by the constructor and kept by every handler (\<open>reachable_prompt_ok\<close> below).

  \<^item> \<open>index_ok\<close>: the entry \<^verbatim>\<open>"index"\<close> of a choice is its position in \<open>choices\<close>.
  \<^item> \<open>refs_ok\<close>: every reference of the filtered view points into \<open>choices\<close>.
  \<^item> \<open>cursor_ok\<close>: the cursor is a position of the filtered view, or \<open>0\<close> when the
    view is empty.
\<close>

definition index_ok :: "'v choice list \<Rightarrow> bool" where
  "index_ok cs = (map choice_index cs = map int [0..<length cs])"

definition refs_ok :: "'v fuzzy_prompt \<Rightarrow> bool" where
  "refs_ok s = list_all (\<lambda>r. r < length (choices s)) (filtered_choices s)"

definition cursor_ok :: "'v fuzzy_prompt \<Rightarrow> bool" where
  "cursor_ok s =
     (0 \<le> selected_choice_index s \<and> selected_choice_index s < max 1 (choice_count s))"

definition prompt_ok :: "'v fuzzy_prompt \<Rightarrow> bool" where
  "prompt_ok s = (index_ok (choices s) \<and> refs_ok s \<and> cursor_ok s)"

text \<open>
  The states of a prompt: the one its constructor leaves, and those that a change of the
  text or a key of the prompt leads to when the handler returns. The constructor of the
  base class is taken to leave the cursor on a position of the choices, and the matcher
  to return choices it was given.
\<close>

inductive reachable :: "'v matcher \<Rightarrow> 'v fuzzy_prompt \<Rightarrow> bool" for m :: "'v matcher" where
  constructed: "fuzzy_init base multi = Inr s \<Longrightarrow> cursor_ok s \<Longrightarrow> reachable m s"
| typed: "reachable m s \<Longrightarrow> list_all (\<lambda>r. r < length (choices s)) (snd (m t (choices s)))
           \<Longrightarrow> reachable m (type_text m t s)"
| pressed: "reachable m s \<Longrightarrow> key_binding k s = Some (Inr s') \<Longrightarrow> reachable m s'"

section \<open>A concrete prompt\<close>

text \<open>
  The prompt of the specification's examples: the choices apple, banana and grape,
  each with its name as value. \<open>fruit_base\<close> is the state after the base classes'
  constructors (cursor on the first choice, a validator that accepts everything, nothing
  answered), \<open>fruit_prompt\<close> the state after \<^verbatim>\<open>FuzzyPrompt.__init__\<close>.

  \<open>fruit_match\<close> is a matcher on these choices, given by its results for the texts
  used below: \<^verbatim>\<open>"ap"\<close> matches apple at 0, 1 and grape at 2, 3 (the specification's
  first example); \<^verbatim>\<open>"ae"\<close> matches grape at 2, 4 and apple at 0, 4, grape ranked
  first; every other text (\<^verbatim>\<open>"xyz"\<close>, the second example) matches nothing.
\<close>

definition fruit :: "string \<Rightarrow> int \<Rightarrow> bool \<Rightarrow> string choice" where
  "fruit n i e =
     \<lparr>choice_name = n, choice_value = Plain n, choice_enabled = e, choice_index = i\<rparr>"

definition fruit_base :: "string fuzzy_prompt" where
  "fruit_base =
     \<lparr>choices = [fruit ''apple'' 0 False, fruit ''banana'' 0 False, fruit ''grape'' 0 False],
      selected_choice_index = 0, filtered_choices = [], filtered_indices = [],
      buffer_text = [], multiselect = False, invalid = False, validator = (\<lambda>_. True),
      status_answered = False, status_result = NoneAnswer, exit_result = None\<rparr>"

definition fruit_prompt :: "bool \<Rightarrow> string fuzzy_prompt" where
  "fruit_prompt multi =
     \<lparr>choices = [fruit ''apple'' 0 False, fruit ''banana'' 1 False, fruit ''grape'' 2 False],
      selected_choice_index = 0, filtered_choices = [0, 1, 2], filtered_indices = [],
      buffer_text = [], multiselect = multi, invalid = False, validator = (\<lambda>_. True),
      status_answered = False, status_result = NoneAnswer, exit_result = None\<rparr>"

definition fruit_match :: "string matcher" where
  "fruit_match t cs =
     (if t = ''ap'' then ([[0, 1], [2, 3]], [0, 2])
      else if t = ''ae'' then ([[2, 4], [0, 4]], [2, 0])
      else ([], []))"

section \<open>Indexing and the selection\<close>

lemma py_pos_range: "0 \<le> i \<Longrightarrow> i < int n \<Longrightarrow> py_pos n i = Inr (nat i)"
  by (simp add: py_pos_def)

lemma getitem_range: "0 \<le> i \<Longrightarrow> i < int (length xs) \<Longrightarrow> getitem xs i = Inr (xs ! nat i)"
  by (simp add: getitem_def py_pos_range)

lemma getitem_Nil: "getitem [] i = Inl IndexError"
  by (simp add: getitem_def py_pos_def)

lemma selection_range:
  "0 \<le> selected_choice_index s \<Longrightarrow> selected_choice_index s < choice_count s \<Longrightarrow>
   selection s = Inr (choices s ! (filtered_choices s ! nat (selected_choice_index s)))"
  by (simp add: selection_def choice_count_def getitem_range)

lemma selection_empty: "filtered_choices s = [] \<Longrightarrow> selection s = Inl IndexError"
  by (simp add: selection_def getitem_Nil)

lemma cursor_ok_range:
  "cursor_ok s \<Longrightarrow> filtered_choices s \<noteq> [] \<Longrightarrow>
   0 \<le> selected_choice_index s \<and> selected_choice_index s < choice_count s"
  by (cases "filtered_choices s") (auto simp: cursor_ok_def choice_count_def)

section \<open>The constructor establishes the invariants\<close>

lemma init_choices_length: "init_choices i cs = Inr cs' \<Longrightarrow> length cs' = length cs"
  by (induction cs arbitrary: i cs') (auto split: if_splits sum.splits)

lemma init_choices_index:
  "init_choices i cs = Inr cs' \<Longrightarrow> map choice_index cs' = map (\<lambda>k. i + int k) [0..<length cs]"
proof (induction cs arbitrary: i cs')
  case Nil
  then show ?case by simp
next
  case (Cons c cs)
  then obtain r where r: "init_choices (i + 1) cs = Inr r"
    and cs': "cs' = c\<lparr>choice_enabled := False, choice_index := i\<rparr> # r"
    by (auto split: if_splits sum.splits)
  have "map choice_index r = map (\<lambda>k. i + 1 + int k) [0..<length cs]"
    using Cons.IH [OF r] .
  also have "\<dots> = map (\<lambda>k. i + int k) (map Suc [0..<length cs])"
    by simp
  finally show ?case
    using cs' by (simp add: upt_conv_Cons map_Suc_upt del: upt_Suc)
qed

lemma init_choices_fields:
  "init_choices i cs = Inr cs' \<Longrightarrow>
   map choice_name cs' = map choice_name cs \<and> map choice_value cs' = map choice_value cs \<and>
   list_all (\<lambda>c. choice_value c \<noteq> Separator \<and> \<not> choice_enabled c) cs'"
  by (induction cs arbitrary: i cs') (auto split: if_splits sum.splits)

lemma init_choices_separator:
  "Separator \<in> set (map choice_value cs) \<Longrightarrow> init_choices i cs = Inl InvalidArgument"
  by (induction cs arbitrary: i) (auto split: sum.splits)

lemma fuzzy_init_invariants:
  assumes "fuzzy_init base multi = Inr s"
  shows "index_ok (choices s)" and "refs_ok s" and "selected_choices s = []"
    and "filtered_choices s = [0..<length (choices s)]" and "filtered_indices s = []"
    and "list_all (\<lambda>c. choice_value c \<noteq> Separator) (choices s)"
proof -
  obtain cs where cs: "init_choices 0 (choices base) = Inr cs"
    and s: "s = base\<lparr>multiselect := multi, choices := cs,
                    filtered_choices := [0..<length cs], filtered_indices := [],
                    buffer_text := []\<rparr>"
    using assms by (auto simp: fuzzy_init_def split: sum.splits)
  show "index_ok (choices s)"
    using init_choices_index [OF cs] init_choices_length [OF cs] s by (simp add: index_ok_def)
  show "refs_ok s"
    using s by (simp add: refs_ok_def list_all_iff)
  show "selected_choices s = []"
    using init_choices_fields [OF cs] s
    by (simp add: selected_choices_def list_all_iff filter_empty_conv)
  show "filtered_choices s = [0..<length (choices s)]" and "filtered_indices s = []"
    using s by simp_all
  show "list_all (\<lambda>c. choice_value c \<noteq> Separator) (choices s)"
    using init_choices_fields [OF cs] s by (simp add: list_all_iff)
qed

lemma fruit_init: "fuzzy_init fruit_base multi = Inr (fruit_prompt multi)"
  by (simp add: fuzzy_init_def fruit_base_def fruit_prompt_def fruit_def upt_rec)

section \<open>The handlers keep the invariants\<close>

lemma mod_count_range:
  "xs \<noteq> [] \<Longrightarrow> 0 \<le> i mod int (length xs) \<and> i mod int (length xs) < max 1 (int (length xs))"
  by (cases xs) simp_all

lemma cursor_ok_handle_down: "handle_down s = Inr s' \<Longrightarrow> cursor_ok s'"
  by (auto simp: handle_down_def cursor_ok_def choice_count_def mod_count_range split: if_splits)

lemma cursor_ok_handle_up: "handle_up s = Inr s' \<Longrightarrow> cursor_ok s'"
  by (auto simp: handle_up_def cursor_ok_def choice_count_def mod_count_range split: if_splits)

lemma cursor_ok_on_text_changed: "cursor_ok s \<Longrightarrow> cursor_ok (on_text_changed m s)"
  by (auto simp: on_text_changed_def Let_def cursor_ok_def choice_count_def filter_choices_def
      split: prod.splits)

lemma index_ok_same_indices:
  "map choice_index cs' = map choice_index cs \<Longrightarrow> index_ok cs \<Longrightarrow> index_ok cs'"
  by (metis index_ok_def length_map)

lemma choice_index_update:
  "map choice_index (cs[k := (cs ! k)\<lparr>choice_enabled := e\<rparr>]) = map choice_index cs"
  by (cases "k < length cs") (auto simp: list_eq_iff_nth_eq nth_list_update)

lemma choice_index_toggle: "map choice_index (map (toggle_choice v) cs) = map choice_index cs"
  by (induction cs) (simp_all add: toggle_choice_def)

lemma handle_tab_invariants:
  assumes "handle_tab s = Inr s'"
  shows "index_ok (choices s) \<Longrightarrow> index_ok (choices s')"
    and "refs_ok s \<Longrightarrow> refs_ok s'" and "cursor_ok s \<Longrightarrow> cursor_ok s'"
  using assms
  by (auto simp: handle_tab_def refs_ok_def cursor_ok_def choice_count_def
      intro: index_ok_same_indices [OF choice_index_update] split: sum.splits)

lemma toggle_all_invariants:
  shows "index_ok (choices s) \<Longrightarrow> index_ok (choices (toggle_all v s))"
    and "refs_ok s \<Longrightarrow> refs_ok (toggle_all v s)"
    and "cursor_ok s \<Longrightarrow> cursor_ok (toggle_all v s)"
  by (auto simp: toggle_all_def refs_ok_def cursor_ok_def choice_count_def
      intro: index_ok_same_indices [OF choice_index_toggle])

lemma refs_ok_on_text_changed:
  assumes "list_all (\<lambda>r. r < length (choices s)) (snd (m (buffer_text s) (choices s)))"
  shows "refs_ok (on_text_changed m s)"
  using assms
  by (auto simp: on_text_changed_def Let_def filter_choices_def refs_ok_def list_all_iff
      split: prod.splits)

lemma index_ok_on_text_changed:
  "index_ok (choices s) \<Longrightarrow> index_ok (choices (on_text_changed m s))"
  by (auto simp: on_text_changed_def Let_def filter_choices_def split: prod.splits)

lemma handle_enter_frame:
  assumes "handle_enter s = Inr s'"
  shows "choices s' = choices s \<and> filtered_choices s' = filtered_choices s \<and>
         selected_choice_index s' = selected_choice_index s"
  using assms
  by (auto simp: handle_enter_def enter_answer_def enter_except_def
      split: sum.splits if_splits)

lemma prompt_ok_frame:
  "choices s' = choices s \<Longrightarrow> filtered_choices s' = filtered_choices s \<Longrightarrow>
   selected_choice_index s' = selected_choice_index s \<Longrightarrow> prompt_ok s \<Longrightarrow> prompt_ok s'"
  by (simp add: prompt_ok_def refs_ok_def cursor_ok_def choice_count_def)

lemma prompt_ok_handle_down: "prompt_ok s \<Longrightarrow> handle_down s = Inr s' \<Longrightarrow> prompt_ok s'"
  using cursor_ok_handle_down [of s s']
  by (auto simp: prompt_ok_def handle_down_def refs_ok_def split: if_splits)

lemma prompt_ok_handle_up: "prompt_ok s \<Longrightarrow> handle_up s = Inr s' \<Longrightarrow> prompt_ok s'"
  using cursor_ok_handle_up [of s s']
  by (auto simp: prompt_ok_def handle_up_def refs_ok_def split: if_splits)

lemma prompt_ok_handle_tab: "prompt_ok s \<Longrightarrow> handle_tab s = Inr s' \<Longrightarrow> prompt_ok s'"
  using handle_tab_invariants [of s s'] by (simp add: prompt_ok_def)

lemma prompt_ok_toggle_all: "prompt_ok s \<Longrightarrow> prompt_ok (toggle_all v s)"
  using toggle_all_invariants [of s v] by (simp add: prompt_ok_def)

lemma prompt_ok_key_binding:
  assumes "prompt_ok s" and "key_binding k s = Some (Inr s')"
  shows "prompt_ok s'"
proof (cases k)
  case Enter
  then have "handle_enter s = Inr s'" using assms(2) by simp
  from handle_enter_frame [OF this] assms(1) show ?thesis
    by (auto intro: prompt_ok_frame)
next
  case Tab
  then obtain s1 where "handle_tab s = Inr s1" "handle_down s1 = Inr s'"
    using assms(2) by (auto simp: tab_then_def split: if_splits sum.splits)
  then show ?thesis
    using assms(1) prompt_ok_handle_tab prompt_ok_handle_down by blast
next
  case BackTab
  then obtain s1 where "handle_tab s = Inr s1" "handle_up s1 = Inr s'"
    using assms(2) by (auto simp: tab_then_def split: if_splits sum.splits)
  then show ?thesis
    using assms(1) prompt_ok_handle_tab prompt_ok_handle_up by blast
next
  case Down
  then show ?thesis using assms prompt_ok_handle_down by auto
next
  case Up
  then show ?thesis using assms prompt_ok_handle_up by auto
next
  case EscapeA
  then show ?thesis using assms prompt_ok_toggle_all by (auto split: if_splits)
next
  case EscapeR
  then show ?thesis using assms prompt_ok_toggle_all by (auto split: if_splits)
qed

lemma prompt_ok_type_text:
  assumes "prompt_ok s"
    and "list_all (\<lambda>r. r < length (choices s)) (snd (m t (choices s)))"
  shows "prompt_ok (type_text m t s)"
proof -
  let ?s = "s\<lparr>buffer_text := t\<rparr>"
  have "index_ok (choices ?s)" and "cursor_ok ?s"
    using assms(1) by (simp_all add: prompt_ok_def cursor_ok_def choice_count_def)
  moreover have "list_all (\<lambda>r. r < length (choices ?s)) (snd (m (buffer_text ?s) (choices ?s)))"
    using assms(2) by simp
  ultimately show ?thesis
    unfolding type_text_def prompt_ok_def
    using index_ok_on_text_changed refs_ok_on_text_changed cursor_ok_on_text_changed by blast
qed

lemma reachable_prompt_ok: "reachable m s \<Longrightarrow> prompt_ok s"
proof (induction rule: reachable.induct)
  case (constructed base multi s)
  then show ?case
    using fuzzy_init_invariants(1,2) [of base multi s] by (simp add: prompt_ok_def)
next
  case (typed s t)
  then show ?case by (simp add: prompt_ok_type_text)
next
  case (pressed s k s')
  then show ?case using prompt_ok_key_binding by blast
qed

lemma index_ok_sorted:
  assumes "index_ok cs"
  shows "sorted_wrt (<) (map choice_index (filter P cs))"
proof -
  have "sorted_wrt (<) (map int [0..<length cs])"
    by (simp add: sorted_wrt_map)
  then have "sorted_wrt (<) (map choice_index cs)"
    using assms by (simp add: index_ok_def)
  then have "sorted_wrt (\<lambda>x y. choice_index x < choice_index y) cs"
    by (simp add: sorted_wrt_map)
  then have "sorted_wrt (\<lambda>x y. choice_index x < choice_index y) (filter P cs)"
    by (rule sorted_wrt_filter)
  then show ?thesis
    by (simp add: sorted_wrt_map)
qed

section \<open>Moving the cursor\<close>

lemma handle_down_empty: "filtered_choices s = [] \<Longrightarrow> handle_down s = Inl ZeroDivisionError"
  by (simp add: handle_down_def choice_count_def)

lemma handle_up_empty: "filtered_choices s = [] \<Longrightarrow> handle_up s = Inl ZeroDivisionError"
  by (simp add: handle_up_def choice_count_def)

text \<open>
  C1. The claim: on an empty filtered view, moving down or up is a guarded no-op that
  leaves the cursor where it is and raises nothing. The code has no such guard:
  \<^verbatim>\<open>_handle_down\<close> and \<^verbatim>\<open>_handle_up\<close> compute \<^verbatim>\<open>... % choice_count\<close> with a count
  of zero. In the prompt over apple, banana and grape, after the text \<^verbatim>\<open>"xyz"\<close> has
  emptied the view (cursor 0), the keys Down and Up both end in
  \<^verbatim>\<open>ZeroDivisionError\<close>.
\<close>

theorem move_on_empty_view_raises:
  "fuzzy_init fruit_base False = Inr (fruit_prompt False) \<and>
   filtered_choices (type_text fruit_match ''xyz'' (fruit_prompt False)) = [] \<and>
   selected_choice_index (type_text fruit_match ''xyz'' (fruit_prompt False)) = 0 \<and>
   key_binding Down (type_text fruit_match ''xyz'' (fruit_prompt False))
     = Some (Inl ZeroDivisionError) \<and>
   key_binding Up (type_text fruit_match ''xyz'' (fruit_prompt False))
     = Some (Inl ZeroDivisionError)"
  by (simp add: fruit_init type_text_def on_text_changed_def filter_choices_def fruit_match_def
      fruit_prompt_def handle_down_def handle_up_def choice_count_def)

text \<open>
  C5. After a change of the text, the cursor is within \<open>0 \<le> cursor < max 1 N\<close>, where
  \<open>N\<close> is the length of the new filtered view: a cursor beyond \<open>N - 1\<close> is pulled back
  to \<open>N - 1\<close>, and to \<open>0\<close> when that is negative (the view became empty); any other
  cursor stays. The cursor before the change is a cursor of the prompt, that is, not
  negative: the constructor's preselection, \<open>mod\<close> by a positive count and this very
  function produce nothing else (\<open>reachable_prompt_ok\<close>).
\<close>

theorem on_text_changed_cursor:
  assumes "0 \<le> selected_choice_index s"
  shows "selected_choice_index (on_text_changed m s) =
           (if selected_choice_index s > choice_count (on_text_changed m s) - 1
            then max 0 (choice_count (on_text_changed m s) - 1)
            else selected_choice_index s) \<and>
         0 \<le> selected_choice_index (on_text_changed m s) \<and>
         selected_choice_index (on_text_changed m s) < max 1 (choice_count (on_text_changed m s))"
  using assms
  by (auto simp: on_text_changed_def Let_def choice_count_def filter_choices_def split: prod.splits)

text \<open>
  The witness follows the cursor through a view that goes from three entries to none and
  back to three: from 2 it is reset to 0 by the empty view and is still 0, a valid
  position, when the view is full again.
\<close>

theorem on_text_changed_cursor_witness:
  "0 \<le> selected_choice_index ((fruit_prompt False)\<lparr>selected_choice_index := 2\<rparr>) \<and>
   choice_count (type_text fruit_match ''xyz''
      ((fruit_prompt False)\<lparr>selected_choice_index := 2\<rparr>)) = 0 \<and>
   selected_choice_index (type_text fruit_match ''xyz''
      ((fruit_prompt False)\<lparr>selected_choice_index := 2\<rparr>)) = 0 \<and>
   choice_count (type_text fruit_match []
      (type_text fruit_match ''xyz'' ((fruit_prompt False)\<lparr>selected_choice_index := 2\<rparr>))) = 3 \<and>
   selected_choice_index (type_text fruit_match []
      (type_text fruit_match ''xyz'' ((fruit_prompt False)\<lparr>selected_choice_index := 2\<rparr>))) = 0"
  using on_text_changed_cursor
    [of "(fruit_prompt False)\<lparr>selected_choice_index := 2, buffer_text := ''xyz''\<rparr>" fruit_match]
  by (simp add: fruit_prompt_def type_text_def on_text_changed_def filter_choices_def
      fruit_match_def choice_count_def)

section \<open>Toggling\<close>

lemma toggle_all_with_True:
  "choices (toggle_all (Some True) s) =
     map (\<lambda>c. if choice_value c = Separator then c else c\<lparr>choice_enabled := True\<rparr>)
       (choices s)"
  by (simp add: toggle_all_def toggle_choice_def)

lemma toggle_all_without_value:
  "choices (toggle_all None s) =
     map (\<lambda>c. if choice_value c = Separator then c
              else c\<lparr>choice_enabled := \<not> choice_enabled c\<rparr>) (choices s)"
  by (simp add: toggle_all_def toggle_choice_def)

lemma toggle_all_with_False: "toggle_all (Some False) s = toggle_all None s"
  by (simp add: toggle_all_def toggle_choice_def)

text \<open>
  C3. The claim: \<^verbatim>\<open>toggle_all(v)\<close> sets every flag to \<open>v\<close> for \<open>v\<close> true and for
  \<open>v\<close> false, and flips every flag when no value is given. The code does so for
  \<^verbatim>\<open>True\<close> and for no value (\<open>toggle_all_with_True\<close>, \<open>toggle_all_without_value\<close>), but its test
  \<^verbatim>\<open>value if value else ...\<close> takes \<^verbatim>\<open>False\<close> for no value
  (\<open>toggle_all_with_False\<close>): on the fresh prompt, where no choice is enabled,
  \<^verbatim>\<open>_toggle_all(False)\<close> enables all three choices.
\<close>

theorem toggle_all_False_enables:
  "map choice_enabled (choices (fruit_prompt True)) = [False, False, False] \<and>
   map choice_enabled (choices (toggle_all (Some False) (fruit_prompt True)))
     = [True, True, True]"
  by (simp add: toggle_all_def toggle_choice_def fruit_prompt_def fruit_def)

text \<open>
  C6. \<^verbatim>\<open>toggle_all(True)\<close> followed by \<^verbatim>\<open>toggle_all(False)\<close> leaves every candidate
  with \<^verbatim>\<open>enabled = False\<close> and changes nothing else, whatever the flags were before.
  (An entry whose value is a separator is skipped by both calls; the constructor admits
  none, see \<open>fuzzy_init_invariants\<close>.)
\<close>

theorem toggle_all_True_then_False:
  "toggle_all (Some False) (toggle_all (Some True) s) =
     s\<lparr>choices := map (\<lambda>c. if choice_value c = Separator then c
                            else c\<lparr>choice_enabled := False\<rparr>) (choices s)\<rparr>"
  by (simp add: toggle_all_def toggle_choice_def)

text \<open>
  C10. In multi-select mode, with a non-empty filtered view, Tab negates the flag of the
  candidate under the cursor and then moves the cursor one position down, wrapping
  around; BackTab negates the same flag and then moves the cursor one position up.
  Nothing else changes. The state is one of the prompt: the cursor is a position of the
  view, the view refers into \<open>choices\<close>, and each choice carries its position as index.
\<close>

theorem tab_toggles_then_moves:
  assumes "multiselect s" and "filtered_choices s \<noteq> []" and "cursor_ok s" and "refs_ok s"
    and "index_ok (choices s)"
  shows "key_binding Tab s =
           Some (Inr (s\<lparr>choices := (choices s)
                  [filtered_choices s ! nat (selected_choice_index s) :=
                     (choices s ! (filtered_choices s ! nat (selected_choice_index s)))
                       \<lparr>choice_enabled := \<not> choice_enabled
                           (choices s ! (filtered_choices s ! nat (selected_choice_index s)))\<rparr>],
                  selected_choice_index := (selected_choice_index s + 1) mod choice_count s\<rparr>))
       \<and> key_binding BackTab s =
           Some (Inr (s\<lparr>choices := (choices s)
                  [filtered_choices s ! nat (selected_choice_index s) :=
                     (choices s ! (filtered_choices s ! nat (selected_choice_index s)))
                       \<lparr>choice_enabled := \<not> choice_enabled
                           (choices s ! (filtered_choices s ! nat (selected_choice_index s)))\<rparr>],
                  selected_choice_index := (selected_choice_index s - 1) mod choice_count s\<rparr>))"
proof -
  let ?r = "filtered_choices s ! nat (selected_choice_index s)"
  have rng: "0 \<le> selected_choice_index s" "selected_choice_index s < choice_count s"
    using cursor_ok_range [OF assms(3,2)] by simp_all
  then have "nat (selected_choice_index s) < length (filtered_choices s)"
    by (simp add: choice_count_def)
  then have r: "?r < length (choices s)"
    using assms(4) by (simp add: refs_ok_def list_all_length)
  have "choice_index (choices s ! ?r) = int ?r"
    using assms(5) r unfolding index_ok_def by (metis length_map nth_map nth_upt add_0)
  then have pos: "py_pos (length (choices s)) (choice_index (choices s ! ?r)) = Inr ?r"
    using r by (simp add: py_pos_def)
  have tab: "handle_tab s = Inr (s\<lparr>choices := (choices s)
      [?r := (choices s ! ?r)\<lparr>choice_enabled := \<not> choice_enabled (choices s ! ?r)\<rparr>]\<rparr>)"
    using selection_range [OF rng] pos by (simp add: handle_tab_def)
  have cnt: "choice_count s \<noteq> 0"
    using assms(2) by (simp add: choice_count_def)
  show ?thesis
    using assms(1) tab cnt
    by (simp add: tab_then_def handle_down_def handle_up_def choice_count_def)
qed

text \<open>
  The witness: the text \<^verbatim>\<open>"ap"\<close> leaves apple and grape in the view and Down puts
  the cursor on grape, the last entry; there Tab enables grape and wraps the cursor to 0, while BackTab
  enables grape and moves the cursor up to 0.
\<close>

theorem tab_toggles_then_moves_witness:
  "key_binding Down (type_text fruit_match ''ap'' (fruit_prompt True))
     = Some (Inr ((type_text fruit_match ''ap'' (fruit_prompt True))\<lparr>selected_choice_index := 1\<rparr>))
   \<and> multiselect ((type_text fruit_match ''ap'' (fruit_prompt True))\<lparr>selected_choice_index := 1\<rparr>)
   \<and> filtered_choices
       ((type_text fruit_match ''ap'' (fruit_prompt True))\<lparr>selected_choice_index := 1\<rparr>) = [0, 2]
   \<and> cursor_ok ((type_text fruit_match ''ap'' (fruit_prompt True))\<lparr>selected_choice_index := 1\<rparr>)
   \<and> refs_ok ((type_text fruit_match ''ap'' (fruit_prompt True))\<lparr>selected_choice_index := 1\<rparr>)
   \<and> index_ok (choices
       ((type_text fruit_match ''ap'' (fruit_prompt True))\<lparr>selected_choice_index := 1\<rparr>))
   \<and> key_binding Tab
       ((type_text fruit_match ''ap'' (fruit_prompt True))\<lparr>selected_choice_index := 1\<rparr>)
      = Some (Inr ((type_text fruit_match ''ap'' (fruit_prompt True))
           \<lparr>choices := [fruit ''apple'' 0 False, fruit ''banana'' 1 False, fruit ''grape'' 2 True],
            selected_choice_index := 0\<rparr>))
   \<and> key_binding BackTab
       ((type_text fruit_match ''ap'' (fruit_prompt True))\<lparr>selected_choice_index := 1\<rparr>)
      = Some (Inr ((type_text fruit_match ''ap'' (fruit_prompt True))
           \<lparr>choices := [fruit ''apple'' 0 False, fruit ''banana'' 1 False, fruit ''grape'' 2 True],
            selected_choice_index := 0\<rparr>))"
  using tab_toggles_then_moves
    [of "(type_text fruit_match ''ap'' (fruit_prompt True))\<lparr>selected_choice_index := 1\<rparr>"]
  by (simp add: fruit_prompt_def type_text_def on_text_changed_def filter_choices_def
      fruit_match_def choice_count_def cursor_ok_def refs_ok_def index_ok_def fruit_def upt_rec
      handle_down_def)

section \<open>Filtering\<close>

lemma filter_choices_empty_text:
  "buffer_text s = [] \<Longrightarrow>
   filter_choices m s = s\<lparr>filtered_choices := [0..<length (choices s)]\<rparr>"
  by (simp add: filter_choices_def)

text \<open>
  C4. The claim: with an empty query the filtered view is the full candidate list in
  its original order, no entry has highlight indices, and the matcher is not called.
  The view and the matcher are as claimed (\<open>filter_choices_empty_text\<close>: the result
  does not depend on the matcher). But the branch for the empty text does not assign
  \<^verbatim>\<open>_filtered_indices\<close>, which only the constructor sets to \<^verbatim>\<open>[]\<close>: after the text
  \<^verbatim>\<open>"ap"\<close> has been typed and deleted again, the view shows all three choices and the
  match positions of \<^verbatim>\<open>"ap"\<close> are still there, now against apple and banana.
\<close>

theorem empty_text_keeps_old_indices:
  "filtered_indices (fruit_prompt False) = [] \<and>
   filtered_choices (type_text fruit_match []
       (type_text fruit_match ''ap'' (fruit_prompt False))) = [0, 1, 2] \<and>
   filtered_indices (type_text fruit_match []
       (type_text fruit_match ''ap'' (fruit_prompt False))) = [[0, 1], [2, 3]]"
  by (simp add: type_text_def on_text_changed_def filter_choices_def fruit_match_def
      fruit_prompt_def choice_count_def upt_rec)

section \<open>Enter\<close>

lemma handle_enter_single_empty:
  "\<not> multiselect s \<Longrightarrow> filtered_choices s = [] \<Longrightarrow> handle_enter s = Inl IndexError"
  by (simp add: handle_enter_def result_value_def selection_empty)

lemma handle_enter_single:
  assumes "\<not> multiselect s" and "0 \<le> selected_choice_index s"
    and "selected_choice_index s < choice_count s"
    and "validator s (Single (choice_value
           (choices s ! (filtered_choices s ! nat (selected_choice_index s)))))"
  shows "handle_enter s =
       Inr (s\<lparr>status_answered := True,
              status_result := Single (choice_name
                 (choices s ! (filtered_choices s ! nat (selected_choice_index s)))),
              exit_result := Some (Single (choice_value
                 (choices s ! (filtered_choices s ! nat (selected_choice_index s)))))\<rparr>)"
  using assms
  by (simp add: handle_enter_def result_value_def enter_answer_def selection_def
      choice_count_def getitem_range)

lemma handle_enter_multi_empty:
  assumes "multiselect s" and "selected_choices s = []" and "filtered_choices s = []"
    and "validator s (Multi [])"
  shows "exit_of (handle_enter s) = Inr (Some (Multi []))"
  using assms
  by (simp add: handle_enter_def result_value_def enter_answer_def selection_empty
      selected_choices_def enter_except_def exit_of_def)

text \<open>
  C2. The claim: in single-select mode Enter returns \<^verbatim>\<open>None\<close> without an error when
  the filtered view is empty, and the value of the candidate under the cursor
  otherwise. The second half holds once the validator accepts (\<open>handle_enter_single\<close>).
  For the empty view the code has the handler \<^verbatim>\<open>except IndexError\<close> that would return
  \<^verbatim>\<open>None\<close>, but \<^verbatim>\<open>self.result_value\<close> is evaluated before it, inside the first
  \<^verbatim>\<open>try\<close>, whose only handler is for \<^verbatim>\<open>ValidationError\<close>: the \<^verbatim>\<open>IndexError\<close> of
  \<^verbatim>\<open>selection\<close> leaves \<^verbatim>\<open>_handle_enter\<close>. So it does in the single-select prompt
  over apple, banana and grape after the text \<^verbatim>\<open>"xyz"\<close>, although the validator
  accepts every value.
\<close>

theorem enter_single_empty_view_raises:
  "\<not> multiselect (type_text fruit_match ''xyz'' (fruit_prompt False)) \<and>
   filtered_choices (type_text fruit_match ''xyz'' (fruit_prompt False)) = [] \<and>
   key_binding Enter (type_text fruit_match ''xyz'' (fruit_prompt False))
     = Some (Inl IndexError)"
  by (simp add: type_text_def on_text_changed_def filter_choices_def fruit_match_def
      fruit_prompt_def handle_enter_def result_value_def selection_def getitem_def py_pos_def
      choice_count_def)

text \<open>
  C9. When the validation at Enter fails, the handler ends with the invalid flag set and
  every other component of the state as it was: cursor, filtered view, flags of the
  choices, answered status and result; the application is not left, so no result is
  produced. (That the validation fails means that \<^verbatim>\<open>result_value\<close> has produced the
  value \<open>rv\<close> handed to the validator, and that the validator raised.)
\<close>

theorem enter_validation_failure:
  assumes "result_value s = Inr rv" and "\<not> validator s rv"
  shows "handle_enter s = Inr (s\<lparr>invalid := True\<rparr>)"
  using assms by (simp add: handle_enter_def)

text \<open>
  The witness: a validator that refuses apple, in the single-select prompt with the
  cursor on apple. Enter sets the flag; the application has no result.
\<close>

theorem enter_validation_failure_witness:
  "result_value ((fruit_prompt False)\<lparr>validator := (\<lambda>a. a \<noteq> Single (Plain ''apple''))\<rparr>)
     = Inr (Single (Plain ''apple''))
   \<and> handle_enter ((fruit_prompt False)\<lparr>validator := (\<lambda>a. a \<noteq> Single (Plain ''apple''))\<rparr>)
     = Inr ((fruit_prompt False)
         \<lparr>validator := (\<lambda>a. a \<noteq> Single (Plain ''apple'')), invalid := True\<rparr>)
   \<and> exit_of (handle_enter
         ((fruit_prompt False)\<lparr>validator := (\<lambda>a. a \<noteq> Single (Plain ''apple''))\<rparr>))
     = Inr None"
  using enter_validation_failure
    [of "(fruit_prompt False)\<lparr>validator := (\<lambda>a. a \<noteq> Single (Plain ''apple''))\<rparr>"
        "Single (Plain ''apple'')"]
  by (simp add: fruit_prompt_def result_value_def selection_def getitem_def py_pos_def
      exit_of_def fruit_def)

text \<open>
  Enter in multi-select mode with nothing enabled. The value handed to the validator
  is \<^verbatim>\<open>self.result_value\<close>, the list of the enabled values, which is empty here; the
  value returned afterwards is the one-element list with the value under the cursor.
  The two lemmas give the outcome for a validator that accepts the empty list and for
  one that refuses it.
\<close>

lemma handle_enter_nothing_enabled_accepted:
  assumes "multiselect s" and "selected_choices s = []" and "filtered_choices s \<noteq> []"
    and "cursor_ok s" and "refs_ok s" and "validator s (Multi [])"
  shows "handle_enter s =
           Inr (s\<lparr>status_answered := True,
                  status_result := Multi [choice_name
                     (choices s ! (filtered_choices s ! nat (selected_choice_index s)))],
                  exit_result := Some (Multi [choice_value
                     (choices s ! (filtered_choices s ! nat (selected_choice_index s)))])\<rparr>)"
proof -
  have rv: "result_value s = Inr (Multi [])"
    using assms(1,2) by (simp add: result_value_def)
  have sel: "selection (s\<lparr>status_answered := True\<rparr>) =
      Inr (choices s ! (filtered_choices s ! nat (selected_choice_index s)))"
    using cursor_ok_range [OF assms(4,3)]
    by (simp add: selection_def choice_count_def getitem_range)
  have "selected_choices (s\<lparr>status_answered := True\<rparr>) = []"
    using assms(2) by (simp add: selected_choices_def)
  then show ?thesis
    using rv sel assms(1,6) by (simp add: handle_enter_def enter_answer_def)
qed

lemma handle_enter_nothing_enabled_refused:
  assumes "multiselect s" and "selected_choices s = []" and "\<not> validator s (Multi [])"
  shows "handle_enter s = Inr (s\<lparr>invalid := True\<rparr>)"
  using assms by (simp add: handle_enter_def result_value_def)

text \<open>
  C7. The claim: in multi-select mode, in every state with a non-empty filtered view
  and no candidate enabled, Enter returns the one-element list that holds the value of
  the candidate under the cursor. The code does so only when the validator accepts the
  empty list (\<open>handle_enter_nothing_enabled_accepted\<close>): \<^verbatim>\<open>_handle_enter\<close> validates
  \<^verbatim>\<open>self.result_value\<close>, which is \<^verbatim>\<open>[]\<close> when nothing is enabled, and not the list it
  is about to return, although its docstring says "Validate the result first". In the
  multi-select prompt over apple, banana and grape with a validator that refuses only
  the empty list (it accepts the would-be result, the list with apple), the view shows
  all three choices, the cursor is on apple, nothing is enabled, and Enter ends with
  the invalid flag set and no result.
\<close>

theorem enter_multiselect_validates_empty_list:
  "fuzzy_init (fruit_base\<lparr>validator := (\<lambda>a. a \<noteq> Multi [])\<rparr>) True
     = Inr ((fruit_prompt True)\<lparr>validator := (\<lambda>a. a \<noteq> Multi [])\<rparr>) \<and>
   multiselect ((fruit_prompt True)\<lparr>validator := (\<lambda>a. a \<noteq> Multi [])\<rparr>) \<and>
   selected_choices ((fruit_prompt True)\<lparr>validator := (\<lambda>a. a \<noteq> Multi [])\<rparr>) = [] \<and>
   filtered_choices ((fruit_prompt True)\<lparr>validator := (\<lambda>a. a \<noteq> Multi [])\<rparr>) = [0, 1, 2] \<and>
   selected_choice_index ((fruit_prompt True)\<lparr>validator := (\<lambda>a. a \<noteq> Multi [])\<rparr>) = 0 \<and>
   validator ((fruit_prompt True)\<lparr>validator := (\<lambda>a. a \<noteq> Multi [])\<rparr>)
     (Multi [Plain ''apple'']) \<and>
   result_value ((fruit_prompt True)\<lparr>validator := (\<lambda>a. a \<noteq> Multi [])\<rparr>) = Inr (Multi []) \<and>
   key_binding Enter ((fruit_prompt True)\<lparr>validator := (\<lambda>a. a \<noteq> Multi [])\<rparr>)
     = Some (Inr ((fruit_prompt True)\<lparr>validator := (\<lambda>a. a \<noteq> Multi []), invalid := True\<rparr>)) \<and>
   exit_of (handle_enter ((fruit_prompt True)\<lparr>validator := (\<lambda>a. a \<noteq> Multi [])\<rparr>))
     = Inr None"
  by (simp add: fuzzy_init_def fruit_base_def fruit_prompt_def fruit_def upt_rec
      selected_choices_def result_value_def handle_enter_def exit_of_def)

text \<open>
  C8. In multi-select mode, with at least one candidate enabled, Enter returns the
  values of the enabled candidates in the order of \<open>choices\<close>, which is the order of
  their original index: the indices along the result increase strictly. The filtered
  view and the cursor do not enter into the result. The validator accepts the value it
  is handed, here the result itself.
\<close>

theorem enter_multiselect_enabled_by_index:
  assumes "multiselect s" and "selected_choices s \<noteq> []" and "index_ok (choices s)"
    and "validator s (Multi (map choice_value (selected_choices s)))"
  shows "handle_enter s =
           Inr (s\<lparr>status_answered := True,
                  status_result := Multi (map choice_name (filter choice_enabled (choices s))),
                  exit_result :=
                    Some (Multi (map choice_value (filter choice_enabled (choices s))))\<rparr>)
         \<and> sorted_wrt (<) (map choice_index (filter choice_enabled (choices s)))"
proof -
  have rv: "result_value s = Inr (Multi (map choice_value (selected_choices s)))"
    using assms(1) by (simp add: result_value_def)
  have "selected_choices (s\<lparr>status_answered := True\<rparr>) = selected_choices s"
    by (simp add: selected_choices_def)
  then have "handle_enter s =
           Inr (s\<lparr>status_answered := True,
                  status_result := Multi (map choice_name (filter choice_enabled (choices s))),
                  exit_result :=
                    Some (Multi (map choice_value (filter choice_enabled (choices s))))\<rparr>)"
    using rv assms(1,2,4)
    by (simp add: handle_enter_def enter_answer_def result_name_def result_value_def
        selected_choices_def)
  then show ?thesis
    using index_ok_sorted [OF assms(3)] by simp
qed

text \<open>
  The witness: all three choices are enabled, then the text \<^verbatim>\<open>"ae"\<close> leaves grape
  and apple in the view, in this order. Enter returns apple, banana, grape: the order of
  the original indices, with banana although the filter hides it.
\<close>

theorem enter_multiselect_enabled_by_index_witness:
  "multiselect (type_text fruit_match ''ae'' (toggle_all (Some True) (fruit_prompt True)))
   \<and> index_ok (choices
       (type_text fruit_match ''ae'' (toggle_all (Some True) (fruit_prompt True))))
   \<and> filtered_choices
       (type_text fruit_match ''ae'' (toggle_all (Some True) (fruit_prompt True))) = [2, 0]
   \<and> exit_of (handle_enter
       (type_text fruit_match ''ae'' (toggle_all (Some True) (fruit_prompt True))))
       = Inr (Some (Multi [Plain ''apple'', Plain ''banana'', Plain ''grape'']))"
  using enter_multiselect_enabled_by_index
    [of "type_text fruit_match ''ae'' (toggle_all (Some True) (fruit_prompt True))"]
  by (simp add: fruit_prompt_def type_text_def on_text_changed_def filter_choices_def
      fruit_match_def choice_count_def selected_choices_def index_ok_def exit_of_def fruit_def
      toggle_all_def toggle_choice_def upt_rec)

end
